theory Spec2Isabelle
  imports Complex_Main
begin

section \<open>Python values and exceptions\<close>

text \<open>
  The exceptions the modelled functions can raise. The specification's abstract kinds
  \<open>DomainError\<close>, \<open>FormatError\<close> and \<open>ValidationError\<close> are all Python's
  \<open>ValueError\<close> in the source. A function that can raise returns \<open>error + 'a\<close>,
  \<open>Inl\<close> carrying the exception.

  Finite floats and ints are modelled as \<open>real\<close> with exact arithmetic (no rounding,
  no overflow); the non-finite floats are separate constructors of \<open>pyfloat\<close>, used where
  a value enters from outside (a list entry, the result of \<open>float(...)\<close>).
\<close>

datatype error = ValueError | AttributeError | ZeroDivisionError | OverflowError | ComplexResult

datatype pyfloat = Fin real | PosInf | NegInf | NaN

text \<open>A Python object as a validator receives it: an int or float, or anything else.\<close>

datatype pyval = Num pyfloat | NonNum

text \<open>Sequencing of computations that may raise: the first exception wins.\<close>

fun bind :: "error + 'a \<Rightarrow> ('a \<Rightarrow> error + 'b) \<Rightarrow> error + 'b" where
  "bind (Inl e) f = Inl e"
| "bind (Inr x) f = f x"

text \<open>Python's \<open><=\<close> on floats: false whenever an operand is NaN.\<close>

fun py_le :: "pyfloat \<Rightarrow> pyfloat \<Rightarrow> bool" where
  "py_le NaN _ = False"
| "py_le _ NaN = False"
| "py_le NegInf _ = True"
| "py_le _ PosInf = True"
| "py_le PosInf _ = False"
| "py_le _ NegInf = False"
| "py_le (Fin a) (Fin b) = (a \<le> b)"

section \<open>Constants (sos/constants.py)\<close>

definition SPEED_OF_LIGHT_KM_S :: real where
  "SPEED_OF_LIGHT_KM_S = 299792.458"

definition HUBBLE_CONSTANT :: real where
  "HUBBLE_CONSTANT = 67.8"

definition MATTER_DENSITY_PARAMETER :: real where
  "MATTER_DENSITY_PARAMETER = 0.308"

definition RA_ARCSEC_PER_SECOND :: real where
  "RA_ARCSEC_PER_SECOND = 15.0"

definition MIN_REDSHIFT :: real where
  "MIN_REDSHIFT = 0.0"

definition MAX_REDSHIFT :: real where
  "MAX_REDSHIFT = 10.0"

definition MIN_FLUX_DENSITY_JY :: real where
  "MIN_FLUX_DENSITY_JY = 0.0"

definition MAX_FLUX_DENSITY_JY :: real where
  "MAX_FLUX_DENSITY_JY = 1000000"

section \<open>CosmologyCalculator (sos/core/image_maker.py)\<close>

text \<open>
  An instance is its attribute dictionary. \<open>__init__\<close> stores \<open>h0\<close> and \<open>omega_m\<close>
  and nothing else; the class defines no other data attribute, so reading any other
  name on \<open>self\<close> raises \<open>AttributeError\<close>.
\<close>

type_synonym pyinstance = "string \<rightharpoonup> real"

definition getattr :: "pyinstance \<Rightarrow> string \<Rightarrow> error + real" where
  "getattr self name = (case self name of None \<Rightarrow> Inl AttributeError | Some v \<Rightarrow> Inr v)"

definition CosmologyCalculator :: "real \<Rightarrow> real \<Rightarrow> pyinstance" where
  "CosmologyCalculator h0 omega_m = [''h0'' \<mapsto> h0, ''omega_m'' \<mapsto> omega_m]"

text \<open>Float division: a zero divisor raises.\<close>

definition py_div :: "real \<Rightarrow> real \<Rightarrow> error + real" where
  "py_div a b = (if b = 0 then Inl ZeroDivisionError else Inr (a / b))"

text \<open>
  Float power \<open>a ** b\<close>. A negative base with a non-integral exponent gives a complex
  number in Python 3; the model has no complex values and marks that outcome
  \<open>ComplexResult\<close>. Zero to a negative power raises.
\<close>

definition py_pow :: "real \<Rightarrow> real \<Rightarrow> error + real" where
  "py_pow a b =
     (if 0 < a then Inr (a powr b)
      else if a = 0 then (if b < 0 then Inl ZeroDivisionError else if b = 0 then Inr 1 else Inr 0)
      else if b = of_int \<lfloor>b\<rfloor> then Inr (if even \<lfloor>b\<rfloor> then \<bar>a\<bar> powr b else - (\<bar>a\<bar> powr b))
      else Inl ComplexResult)"

text \<open>
  \<open>angular_diameter_distance\<close>: the operands are read in Python's left-to-right order.
  The local \<open>omega_l\<close> is computed on line 59, but line 63 reads the attribute
  \<open>self.omega_l\<close>.
\<close>

definition angular_diameter_distance :: "pyinstance \<Rightarrow> real \<Rightarrow> error + real" where
  "angular_diameter_distance self redshift =
     (if redshift = 0 then Inr 0.0
      else
        bind (getattr self ''omega_m'') (\<lambda>om0.
        let omega_l = 1.0 - om0 in
        bind (getattr self ''omega_m'') (\<lambda>om1.
        bind (getattr self ''omega_l'') (\<lambda>self_omega_l.
        bind (getattr self ''omega_m'') (\<lambda>om2.
        bind (py_pow (1.0 + om2 * redshift) 0.5) (\<lambda>root.
        let numerator =
              SPEED_OF_LIGHT_KM_S * 2.0 *
              (om1 * redshift + (self_omega_l - 2.0) * (root - 1.0)) in
        bind (getattr self ''h0'') (\<lambda>h0.
        bind (getattr self ''omega_m'') (\<lambda>om3.
        let denominator = h0 * (om3 * (1.0 + redshift)) ^ 2 in
        py_div numerator denominator))))))))"

definition calculate_flux_density :: "pyinstance \<Rightarrow> real \<Rightarrow> real \<Rightarrow> real \<Rightarrow> real \<Rightarrow> error + real" where
  "calculate_flux_density self flux_ref z_ref z_target spectral_index =
     bind (angular_diameter_distance self z_ref) (\<lambda>d_ref.
     bind (angular_diameter_distance self z_target) (\<lambda>d_target.
     if d_ref = 0 \<or> d_target = 0 then Inr flux_ref
     else
       bind (py_div (1.0 + z_target) (1.0 + z_ref)) (\<lambda>ratio.
       bind (py_pow ratio spectral_index) (\<lambda>k_correction.
       bind (py_div d_ref d_target) (\<lambda>q.
       Inr (flux_ref * q ^ 2 * k_correction))))))"

text \<open>
  The closed form the docstring cites (Schneider 2006, section 4.3.3), written from the
  specification's formula: what the method is documented to return for \<open>z \<noteq> 0\<close>.
\<close>

definition closed_form_distance :: "real \<Rightarrow> real \<Rightarrow> real \<Rightarrow> real" where
  "closed_form_distance h0 omega_m z =
     (2 * SPEED_OF_LIGHT_KM_S * (omega_m * z + ((1 - omega_m) - 2) * (sqrt (1 + omega_m * z) - 1)))
       / (h0 * (omega_m * (1 + z))\<^sup>2)"

section \<open>Validators (sos/utils/validators.py)\<close>

text \<open>
  \<open>isinstance(z, (int, float))\<close> is true exactly of the \<open>Num\<close> values. The chained
  comparison \<open>MIN <= z <= MAX\<close> is false for NaN.
\<close>

fun check_redshift :: "pyval \<Rightarrow> error + unit" where
  "check_redshift NonNum = Inl ValueError"
| "check_redshift (Num z) =
     (if \<not> (py_le (Fin MIN_REDSHIFT) z \<and> py_le z (Fin MAX_REDSHIFT)) then Inl ValueError
      else Inr ())"

fun redshift_loop :: "pyval list \<Rightarrow> error + bool" where
  "redshift_loop [] = Inr True"
| "redshift_loop (z # zs) = bind (check_redshift z) (\<lambda>_. redshift_loop zs)"

definition validate_redshifts :: "pyval list \<Rightarrow> error + bool" where
  "validate_redshifts redshifts =
     (if length redshifts = 0 then Inl ValueError else redshift_loop redshifts)"

fun validate_flux_density :: "pyval \<Rightarrow> error + bool" where
  "validate_flux_density NonNum = Inl ValueError"
| "validate_flux_density (Num flux_jy) =
     (if \<not> (py_le (Fin MIN_FLUX_DENSITY_JY) flux_jy \<and> py_le flux_jy (Fin MAX_FLUX_DENSITY_JY))
      then Inl ValueError
      else Inr True)"

text \<open>
  The claims' wording "a numeric value within \<open>[lo, hi]\<close>", as a predicate on Python
  values: a finite number between the bounds.
\<close>

fun numeric_within :: "real \<Rightarrow> real \<Rightarrow> pyval \<Rightarrow> bool" where
  "numeric_within lo hi (Num (Fin r)) = (lo \<le> r \<and> r \<le> hi)"
| "numeric_within lo hi _ = False"

section \<open>Strings, number formatting and \<open>float()\<close>\<close>

text \<open>
  Strings are ASCII character lists. \<open>str.replace\<close> is only called with a
  one-character pattern and \<open>str.split\<close> with a one-character separator, so both are
  modelled for that case.
\<close>

definition replace_char :: "char \<Rightarrow> string \<Rightarrow> string \<Rightarrow> string" where
  "replace_char old new s = concat (map (\<lambda>c. if c = old then new else [c]) s)"

fun split_char :: "char \<Rightarrow> string \<Rightarrow> string list" where
  "split_char sep [] = [[]]"
| "split_char sep (c # cs) =
     (if c = sep then [] # split_char sep cs
      else (case split_char sep cs of [] \<Rightarrow> [[c]] | p # ps \<Rightarrow> (c # p) # ps))"

definition is_digit :: "char \<Rightarrow> bool" where
  "is_digit c = (48 \<le> (of_char c :: nat) \<and> (of_char c :: nat) \<le> 57)"

definition digit_val :: "char \<Rightarrow> nat" where
  "digit_val c = of_char c - 48"

definition digit_char :: "nat \<Rightarrow> char" where
  "digit_char n = char_of (48 + n)"

text \<open>ASCII whitespace, as \<open>float()\<close> strips it from both ends.\<close>

definition is_space :: "char \<Rightarrow> bool" where
  "is_space c = (let n = (of_char c :: nat) in (9 \<le> n \<and> n \<le> 13) \<or> (28 \<le> n \<and> n \<le> 32))"

definition strip :: "string \<Rightarrow> string" where
  "strip s = rev (dropWhile is_space (rev (dropWhile is_space s)))"

definition to_lower :: "char \<Rightarrow> char" where
  "to_lower c = (let n = (of_char c :: nat) in if 65 \<le> n \<and> n \<le> 90 then char_of (n + 32) else c)"

text \<open>\<open>str(n)\<close> for a natural number: its decimal digits.\<close>

fun str_nat :: "nat \<Rightarrow> string" where
  "str_nat n = (if n < 10 then [digit_char n] else str_nat (n div 10) @ [digit_char (n mod 10)])"

declare str_nat.simps [simp del]

text \<open>\<open>f"{i}"\<close> for an int.\<close>

definition str_int :: "int \<Rightarrow> string" where
  "str_int i = (if i < 0 then CHR ''-'' # str_nat (nat (- i)) else str_nat (nat i))"

text \<open>\<open>f"{i:0wd}"\<close>: sign-aware zero padding to width \<open>w\<close>.\<close>

definition fmt_d :: "nat \<Rightarrow> int \<Rightarrow> string" where
  "fmt_d w i =
     (let sgn = (if i < 0 then ''-'' else []);
          ds = str_nat (nat \<bar>i\<bar>)
      in sgn @ replicate (w - length sgn - length ds) CHR ''0'' @ ds)"

text \<open>
  Rounding to the nearest integer, ties to even: how \<open>.2f\<close> rounds the exact value of
  the float it formats.
\<close>

definition round_half_even :: "real \<Rightarrow> int" where
  "round_half_even x =
     (let f = \<lfloor>x\<rfloor>; d = x - of_int f
      in if d < 1 / 2 then f else if 1 / 2 < d then f + 1 else if even f then f else f + 1)"

text \<open>
  \<open>f"{x:0w.2f}"\<close>; width \<open>0\<close> is the unpadded \<open>f"{x:.2f}"\<close>. The non-finite floats
  print as \<open>inf\<close> and \<open>nan\<close>.
\<close>

fun fmt_2f :: "nat \<Rightarrow> pyfloat \<Rightarrow> string" where
  "fmt_2f w (Fin r) =
     (let q = nat (round_half_even (\<bar>r\<bar> * 100));
          body = str_nat (q div 100) @ ''.'' @ [digit_char (q div 10 mod 10), digit_char (q mod 10)];
          sgn = (if r < 0 then ''-'' else [])
      in sgn @ replicate (w - length sgn - length body) CHR ''0'' @ body)"
| "fmt_2f w PosInf = replicate (w - 3) CHR ''0'' @ ''inf''"
| "fmt_2f w NegInf = ''-'' @ replicate (w - 4) CHR ''0'' @ ''inf''"
| "fmt_2f w NaN = replicate (w - 3) CHR ''0'' @ ''nan''"

text \<open>
  \<open>float(s)\<close> on a string, after Python's grammar:
  \<^verbatim>\<open>
  digitpart   ::= digit (["_"] digit)*
  number      ::= [digitpart] "." digitpart | digitpart ["."]
  exponent    ::= ("e" | "E") [sign] digitpart
  floatnumber ::= number [exponent]
  floatvalue  ::= [sign] (floatnumber | "inf" | "infinity" | "nan")
  \<close>
  with surrounding whitespace stripped and \<open>inf\<close>, \<open>infinity\<close>, \<open>nan\<close> in any case.
  The value of a finite literal is its exact decimal value.
\<close>

fun digitpart :: "string \<Rightarrow> bool" where
  "digitpart [] = False"
| "digitpart [c] = is_digit c"
| "digitpart (c # d # cs) =
     (is_digit c \<and> (if d = CHR ''_'' then digitpart cs else digitpart (d # cs)))"

definition digits_val :: "string \<Rightarrow> nat" where
  "digits_val s = foldl (\<lambda>a c. 10 * a + digit_val c) 0 (filter is_digit s)"

definition num_digits :: "string \<Rightarrow> nat" where
  "num_digits s = length (filter is_digit s)"

definition is_exp_mark :: "char \<Rightarrow> bool" where
  "is_exp_mark c = (c = CHR ''e'' \<or> c = CHR ''E'')"

definition parse_number :: "string \<Rightarrow> real option" where
  "parse_number t =
     (let m = takeWhile (\<lambda>c. \<not> is_exp_mark c) t;
          r = dropWhile (\<lambda>c. \<not> is_exp_mark c) t;
          ip = takeWhile (\<lambda>c. c \<noteq> CHR ''.'') m;
          fr = dropWhile (\<lambda>c. c \<noteq> CHR ''.'') m;
          fp = drop 1 fr;
          mant_ok = (if fr = [] then digitpart ip
                     else if ip = [] then digitpart fp
                     else digitpart ip \<and> (fp = [] \<or> digitpart fp));
          ex = drop 1 r;
          exp_neg = (take 1 ex = ''-'');
          exs = (if take 1 ex = ''-'' \<or> take 1 ex = ''+'' then drop 1 ex else ex);
          exp_ok = (r = [] \<or> digitpart exs);
          mant = of_nat (digits_val ip) + of_nat (digits_val fp) / 10 ^ num_digits fp
      in if mant_ok \<and> exp_ok
         then Some (if exp_neg then mant / 10 ^ digits_val exs else mant * 10 ^ digits_val exs)
         else None)"

definition py_float :: "string \<Rightarrow> error + pyfloat" where
  "py_float s =
     (let t = strip s;
          neg = (take 1 t = ''-'');
          body = (if take 1 t = ''-'' \<or> take 1 t = ''+'' then drop 1 t else t);
          low = map to_lower body
      in if low = ''inf'' \<or> low = ''infinity'' then Inr (if neg then NegInf else PosInf)
         else if low = ''nan'' then Inr NaN
         else (case parse_number body of
                 None \<Rightarrow> Inl ValueError
               | Some v \<Rightarrow> Inr (Fin (if neg then - v else v))))"

text \<open>\<open>int(x)\<close> on a finite float truncates towards zero.\<close>

definition py_int :: "real \<Rightarrow> int" where
  "py_int x = (if 0 \<le> x then \<lfloor>x\<rfloor> else \<lceil>x\<rceil>)"

section \<open>Coordinate codec (sos/utils/coordinates.py)\<close>

definition ra_arcsec_to_hms :: "real \<Rightarrow> error + string" where
  "ra_arcsec_to_hms ra_arcsec =
     (if ra_arcsec < 0 then Inl ValueError
      else
        let ra_hours = ra_arcsec / (3600.0 * RA_ARCSEC_PER_SECOND);
            hours = py_int ra_hours;
            remainder = 60.0 * (ra_hours - of_int hours);
            minutes = py_int remainder;
            seconds = 60.0 * (remainder - of_int minutes)
        in bind (py_float (fmt_2f 0 (Fin seconds))) (\<lambda>seconds.
             Inr (fmt_d 2 hours @ ''h'' @ fmt_d 2 minutes @ ''m'' @ fmt_2f 5 seconds @ ''s'')))"

definition dec_arcsec_to_dms :: "real \<Rightarrow> error + string" where
  "dec_arcsec_to_dms dec_arcsec =
     (let deg_value = dec_arcsec / 3600.0 in
      if deg_value < 0.0 then
        let degrees = py_int \<bar>deg_value\<bar>;
            remainder = 60.0 * (deg_value + of_int degrees);
            arcminutes = py_int \<bar>remainder\<bar>;
            arcseconds = \<bar>60.0 * (remainder + of_int arcminutes)\<bar>
        in bind (py_float (fmt_2f 0 (Fin arcseconds))) (\<lambda>arcseconds.
             Inr (''-'' @ str_int degrees @ ''d'' @ str_int arcminutes @ ''m''
                    @ fmt_2f 5 arcseconds @ ''s''))
      else
        let degrees = py_int deg_value;
            remainder = 60.0 * (deg_value - of_int degrees);
            arcminutes = py_int remainder;
            arcseconds = 60.0 * (remainder - of_int arcminutes)
        in bind (py_float (fmt_2f 0 (Fin arcseconds))) (\<lambda>arcseconds.
             Inr (''+'' @ str_int degrees @ ''d'' @ str_int arcminutes @ ''m''
                    @ fmt_2f 5 arcseconds @ ''s'')))"

text \<open>
  The range check of the parsers, \<open>lo <= x < hi\<close>. A non-finite component never passes
  it: comparisons with NaN are false, and an infinity lies outside every bounded range.
\<close>

fun in_half_open :: "real \<Rightarrow> pyfloat \<Rightarrow> real \<Rightarrow> bool" where
  "in_half_open lo (Fin x) hi = (lo \<le> x \<and> x < hi)"
| "in_half_open lo _ hi = False"

text \<open>The real value of a float that has passed a range check.\<close>

fun float_val :: "pyfloat \<Rightarrow> real" where
  "float_val (Fin x) = x"
| "float_val _ = 0"

definition parse_ra_hms :: "string \<Rightarrow> error + real" where
  "parse_ra_hms ra_string =
     (let ra_string = replace_char CHR ''s'' []
                        (replace_char CHR ''m'' '':'' (replace_char CHR ''h'' '':'' ra_string));
          parts = split_char CHR '':'' ra_string
      in if length parts \<noteq> 3 then Inl ValueError
         else
           bind (py_float (parts ! 0)) (\<lambda>hours.
           bind (py_float (parts ! 1)) (\<lambda>minutes.
           bind (py_float (parts ! 2)) (\<lambda>seconds.
           if \<not> (in_half_open 0 hours 24 \<and> in_half_open 0 minutes 60 \<and> in_half_open 0 seconds 60)
           then Inl ValueError
           else Inr (float_val hours + float_val minutes / 60.0 + float_val seconds / 3600.0)))))"

definition parse_dec_dms :: "string \<Rightarrow> error + real" where
  "parse_dec_dms dec_string =
     (let sign = (if take 1 dec_string = ''-'' then - 1.0 else 1.0);
          dec_string = (if take 1 dec_string = ''-'' then drop 1 dec_string
                        else if take 1 dec_string = ''+'' then drop 1 dec_string
                        else dec_string);
          dec_string = replace_char CHR ''s'' []
                         (replace_char CHR ''m'' '':'' (replace_char CHR ''d'' '':'' dec_string));
          parts = split_char CHR '':'' dec_string
      in if length parts \<noteq> 3 then Inl ValueError
         else
           bind (py_float (parts ! 0)) (\<lambda>degrees.
           bind (py_float (parts ! 1)) (\<lambda>arcminutes.
           bind (py_float (parts ! 2)) (\<lambda>arcseconds.
           if \<not> (in_half_open 0 degrees 360 \<and> in_half_open 0 arcminutes 60
                  \<and> in_half_open 0 arcseconds 60)
           then Inl ValueError
           else Inr (sign * (float_val degrees + float_val arcminutes / 60.0
                              + float_val arcseconds / 3600.0))))))"

section \<open>The decomposition the formatters share\<close>

text \<open>
  Both formatters split a non-negative value (RA hours, or the magnitude of the
  declination in degrees) into its integer part, the integer minutes and the remaining
  seconds, by the same three lines. \<open>sexagesimal\<close> names that decomposition and
  \<open>round2\<close> the value of \<open>float(f"{seconds:.2f}")\<close>, so that theorems can speak
  of the fields of the returned string.
\<close>

definition sexagesimal :: "real \<Rightarrow> int \<times> int \<times> real" where
  "sexagesimal v =
     (let whole = py_int v;
          remainder = 60.0 * (v - of_int whole);
          minutes = py_int remainder;
          seconds = 60.0 * (remainder - of_int minutes)
      in (whole, minutes, seconds))"

definition round2 :: "real \<Rightarrow> real" where
  "round2 x = of_int (round_half_even (x * 100)) / 100"

section \<open>Cosmology calculator: what the methods return\<close>

lemma getattr_h0: "getattr (CosmologyCalculator h0 omega_m) ''h0'' = Inr h0"
  by (simp add: getattr_def CosmologyCalculator_def)

lemma getattr_omega_m: "getattr (CosmologyCalculator h0 omega_m) ''omega_m'' = Inr omega_m"
  by (simp add: getattr_def CosmologyCalculator_def)

lemma getattr_omega_l: "getattr (CosmologyCalculator h0 omega_m) ''omega_l'' = Inl AttributeError"
  by (simp add: getattr_def CosmologyCalculator_def)

text \<open>
  Every call with a non-zero redshift stops at the read of \<open>self.omega_l\<close>, whatever
  the construction parameters.
\<close>

lemma distance_nonzero_raises:
  "z \<noteq> 0 \<Longrightarrow> angular_diameter_distance (CosmologyCalculator h0 omega_m) z = Inl AttributeError"
  by (simp add: angular_diameter_distance_def getattr_omega_m getattr_omega_l)

lemma distance_at_zero: "angular_diameter_distance (CosmologyCalculator h0 omega_m) 0 = Inr 0"
  by (simp add: angular_diameter_distance_def)

lemma flux_density_cases:
  "calculate_flux_density (CosmologyCalculator h0 omega_m) flux_ref z_ref z_target alpha =
     (if z_ref = 0 \<and> z_target = 0 then Inr flux_ref else Inl AttributeError)"
  by (cases "z_ref = 0"; cases "z_target = 0")
    (simp_all add: calculate_flux_density_def distance_nonzero_raises distance_at_zero)

text \<open>
  C1. The claim: for \<open>0 < z \<le> 10\<close> the method returns the closed form. On the code,
  with the default parameters and \<open>z = 0.1\<close> (the input of the repository's own test),
  the call raises \<open>AttributeError\<close> and so returns no value, in particular not the
  closed form.
\<close>

theorem angular_diameter_distance_raises:
  "angular_diameter_distance (CosmologyCalculator HUBBLE_CONSTANT MATTER_DENSITY_PARAMETER) 0.1
     = Inl AttributeError
   \<and> angular_diameter_distance (CosmologyCalculator HUBBLE_CONSTANT MATTER_DENSITY_PARAMETER) 0.1
     \<noteq> Inr (closed_form_distance HUBBLE_CONSTANT MATTER_DENSITY_PARAMETER 0.1)"
  by (simp add: distance_nonzero_raises)

text \<open>
  C2. The claim: \<open>calculate_flux_density(F, z, z, alpha)\<close> returns \<open>F\<close> for \<open>z > 0\<close>.
  On the code, \<open>calculate_flux_density(1.0, 0.1, 0.1)\<close> with the default spectral
  index raises \<open>AttributeError\<close> in its first distance computation.
\<close>

theorem flux_density_reference_raises:
  "calculate_flux_density (CosmologyCalculator HUBBLE_CONSTANT MATTER_DENSITY_PARAMETER)
     1.0 0.1 0.1 (- 1.6) = Inl AttributeError"
  by (simp add: flux_density_cases)

text \<open>
  C6. The claim: when either distance is zero the reference flux is returned unchanged.
  On the code, with \<open>z_ref = 0\<close> and \<open>z_target = 0.5\<close> the reference distance is zero,
  yet the call raises \<open>AttributeError\<close>: both distances are computed before the
  short-circuit test, and the second computation fails.
\<close>

theorem flux_density_short_circuit_raises:
  "angular_diameter_distance (CosmologyCalculator HUBBLE_CONSTANT MATTER_DENSITY_PARAMETER) 0
     = Inr 0
   \<and> calculate_flux_density (CosmologyCalculator HUBBLE_CONSTANT MATTER_DENSITY_PARAMETER)
       0.6 0 0.5 (- 1.6) = Inl AttributeError"
  by (simp add: flux_density_cases distance_at_zero)

text \<open>
  C8. At redshift zero the distance is exactly \<open>0.0\<close>, by the special case at the head of
  the method, for every pair of construction parameters (so for every valid pair).
\<close>

theorem angular_diameter_distance_zero:
  "angular_diameter_distance (CosmologyCalculator h0 omega_m) 0 = Inr 0"
  by (simp add: angular_diameter_distance_def)

section \<open>Validators: accepted and rejected inputs\<close>

lemma redshift_loop_total:
  "redshift_loop zs = Inr True \<or> redshift_loop zs = Inl ValueError"
proof (induction zs)
  case Nil
  show ?case by simp
next
  case (Cons z zs)
  then show ?case by (cases z) auto
qed

lemma redshift_loop_accepts:
  "redshift_loop zs = Inr True
     \<longleftrightarrow> list_all (numeric_within 0 10) zs"
proof (induction zs)
  case Nil
  show ?case by simp
next
  case (Cons z zs)
  show ?case
  proof (cases z)
    case NonNum
    then show ?thesis by simp
  next
    case (Num f)
    then show ?thesis
      using Cons by (cases f) (auto simp: MIN_REDSHIFT_def MAX_REDSHIFT_def)
  qed
qed

text \<open>
  C9. \<open>validate_redshifts\<close> raises \<open>ValueError\<close> (the specification's ValidationError)
  on the empty list and on every list with an entry that is not a number within
  \<open>[0, 10]\<close>, and returns \<open>True\<close> on every non-empty list of numbers all within
  \<open>[0, 10]\<close>, such as the thirteen redshifts of the default configuration.
\<close>

theorem validate_redshifts_spec:
  "validate_redshifts [] = Inl ValueError
   \<and> ((\<exists>z \<in> set zs. \<not> numeric_within 0 10 z)
        \<longrightarrow> validate_redshifts zs = Inl ValueError)
   \<and> (zs \<noteq> [] \<and> (\<forall>z \<in> set zs. numeric_within 0 10 z)
        \<longrightarrow> validate_redshifts zs = Inr True)"
proof (intro conjI impI)
  show "validate_redshifts [] = Inl ValueError"
    by (simp add: validate_redshifts_def)
next
  assume bad: "\<exists>z \<in> set zs. \<not> numeric_within 0 10 z"
  then have "redshift_loop zs \<noteq> Inr True"
    by (simp add: redshift_loop_accepts list_all_iff)
  then have "redshift_loop zs = Inl ValueError"
    using redshift_loop_total [of zs] by simp
  then show "validate_redshifts zs = Inl ValueError"
    by (simp add: validate_redshifts_def)
next
  assume ok: "zs \<noteq> [] \<and> (\<forall>z \<in> set zs. numeric_within 0 10 z)"
  then have "redshift_loop zs = Inr True"
    by (simp add: redshift_loop_accepts list_all_iff)
  then show "validate_redshifts zs = Inr True"
    using ok by (simp add: validate_redshifts_def)
qed

theorem validate_redshifts_spec_witness:
  "validate_redshifts [] = Inl ValueError
   \<and> validate_redshifts [Num (Fin (- 0.1)), Num (Fin 0.5)] = Inl ValueError
   \<and> validate_redshifts [Num (Fin 0.1), Num (Fin 100.0)] = Inl ValueError
   \<and> validate_redshifts
       [Num (Fin 0.05), Num (Fin 0.1), Num (Fin 0.13), Num (Fin 0.15), Num (Fin 0.17),
        Num (Fin 0.2), Num (Fin 0.3), Num (Fin 0.4), Num (Fin 0.5), Num (Fin 0.6),
        Num (Fin 0.8), Num (Fin 0.9), Num (Fin 1.0)] = Inr True"
proof (intro conjI)
  show "validate_redshifts [] = Inl ValueError"
    using validate_redshifts_spec [of "[]"] by simp
  show "validate_redshifts [Num (Fin (- 0.1)), Num (Fin 0.5)] = Inl ValueError"
    using validate_redshifts_spec [of "[Num (Fin (- 0.1)), Num (Fin 0.5)]"] by simp
  show "validate_redshifts [Num (Fin 0.1), Num (Fin 100.0)] = Inl ValueError"
    using validate_redshifts_spec [of "[Num (Fin 0.1), Num (Fin 100.0)]"] by simp
  show "validate_redshifts
       [Num (Fin 0.05), Num (Fin 0.1), Num (Fin 0.13), Num (Fin 0.15), Num (Fin 0.17),
        Num (Fin 0.2), Num (Fin 0.3), Num (Fin 0.4), Num (Fin 0.5), Num (Fin 0.6),
        Num (Fin 0.8), Num (Fin 0.9), Num (Fin 1.0)] = Inr True"
    using validate_redshifts_spec
      [of "[Num (Fin 0.05), Num (Fin 0.1), Num (Fin 0.13), Num (Fin 0.15), Num (Fin 0.17),
        Num (Fin 0.2), Num (Fin 0.3), Num (Fin 0.4), Num (Fin 0.5), Num (Fin 0.6),
        Num (Fin 0.8), Num (Fin 0.9), Num (Fin 1.0)]"] by simp
qed

text \<open>
  C10. \<open>validate_flux_density\<close> returns \<open>True\<close> exactly on the numbers of the closed
  interval \<open>[0, 1e6]\<close> and raises \<open>ValueError\<close> on everything else: besides the lower
  bound there is the upper bound \<open>MAX_FLUX_DENSITY_JY\<close>, so that a non-negative flux
  above \<open>1e6\<close> Jy, such as \<open>2e6\<close>, is rejected.
\<close>

theorem validate_flux_density_interval:
  "validate_flux_density v =
     (if numeric_within 0 1000000 v then Inr True else Inl ValueError)"
proof (cases v)
  case NonNum
  then show ?thesis by simp
next
  case (Num f)
  then show ?thesis
    by (cases f) (simp_all add: MIN_FLUX_DENSITY_JY_def MAX_FLUX_DENSITY_JY_def)
qed

theorem validate_flux_density_interval_witness:
  "validate_flux_density (Num (Fin 2000000)) = Inl ValueError
   \<and> validate_flux_density (Num (Fin 1000000)) = Inr True
   \<and> validate_flux_density (Num (Fin 0)) = Inr True
   \<and> validate_flux_density (Num (Fin (- 0.1))) = Inl ValueError"
  using validate_flux_density_interval [of "Num (Fin 2000000)"]
    validate_flux_density_interval [of "Num (Fin 1000000)"]
    validate_flux_density_interval [of "Num (Fin 0)"]
    validate_flux_density_interval [of "Num (Fin (- 0.1))"]
  by simp

end
